theory Spec2Isabelle
  imports Complex_Main "HOL-Library.Char_ord" "HOL-Library.List_Lexorder"
begin

section \<open>The document store as the pages see it\<close>

text \<open>
  The client is a set of React pages over a remote document store. The model follows
  the TypeScript: every interface is a record, every collection a partial map from
  document id to record, every handler a function from the store (and the component
  state the handler reads) to the feedback it shows and the store it leaves behind.

  JavaScript numbers are idealised as exact rationals: rounding, NaN and the infinities
  are outside the model. The one place where the source can divide by zero
  (\<open>handlePurchase\<close>) is written out: there the model returns \<open>None\<close>.

  The network is taken to be up. A call fails, and the handler's \<open>catch\<close> runs, when
  \<open>updateDoc\<close> meets a document that does not exist, as in the SDK, or when the store's
  rules refuse the call. The sell, purchase and adjust handlers and the add and edit
  handlers of the history pages are modelled for a caller whom the rules allow their
  calls: an admin, or staff (for an edit, on a record of their own). (To any other
  caller the rules refuse the first write of such a handler, and nothing is written.)
  Two handlers make a
  call that the rules refuse to callers whom they allow an earlier one: the deletion of
  a purchase, where staff may update the stock and may not delete the record, and the
  sign-in, where a user may create their own document and may not update it. These two
  are modelled with the rules. The id that \<open>addDoc\<close> generates and the time that
  \<open>Timestamp.now()\<close> reads are parameters.
  Updates of the component's own cached lists (\<open>setItems\<close>, the re-fetches) are not part
  of the stored state and are left out.
\<close>

type_synonym number = rat
type_synonym docid = string
type_synonym Timestamp = int

record InventoryItem =
  item_name :: string
  item_quantity :: number
  item_price :: number
  item_avgCost :: "number option"
  item_category :: string
  item_lastUpdated :: "Timestamp option"

record SaleRecord =
  sale_itemId :: docid
  sale_name :: string
  sale_quantity :: number
  sale_price :: number
  sale_total :: number
  sale_soldAt :: Timestamp
  sale_category :: string
  sale_profit :: number
  sale_customerName :: "string option"
  sale_customerMobile :: "string option"
  sale_createdBy :: "string option"

record PurchaseRecord =
  pur_itemId :: docid
  pur_name :: string
  pur_quantity :: number
  pur_price :: number
  pur_total :: number
  pur_purchasedAt :: Timestamp
  pur_category :: string
  pur_createdBy :: "string option"

record AdjustmentRecord =
  adj_itemId :: docid
  adj_name :: string
  adj_quantity :: number
  adj_reason :: string
  adj_date :: string
  adj_category :: string
  adj_createdAt :: Timestamp
  adj_createdBy :: "string option"

record Firestore =
  inventory :: "docid \<rightharpoonup> InventoryItem"
  sales :: "docid \<rightharpoonup> SaleRecord"
  purchases :: "docid \<rightharpoonup> PurchaseRecord"
  adjustments :: "docid \<rightharpoonup> AdjustmentRecord"

text \<open>The SDK calls. The third argument of \<open>updateDoc\<close> is the merge of the given fields
  into the stored document; fields that the call does not name keep their value.\<close>

definition getDoc :: "(docid \<rightharpoonup> 'a) \<Rightarrow> docid \<Rightarrow> 'a option" where
  "getDoc coll i = coll i"

definition addDoc :: "(docid \<rightharpoonup> 'a) \<Rightarrow> docid \<Rightarrow> 'a \<Rightarrow> (docid \<rightharpoonup> 'a)" where
  "addDoc coll newId d = coll(newId \<mapsto> d)"

definition updateDoc :: "(docid \<rightharpoonup> 'a) \<Rightarrow> docid \<Rightarrow> ('a \<Rightarrow> 'a) \<Rightarrow> (docid \<rightharpoonup> 'a) option" where
  "updateDoc coll i merge = (case coll i of None \<Rightarrow> None | Some d \<Rightarrow> Some (coll(i \<mapsto> merge d)))"

definition deleteDoc :: "(docid \<rightharpoonup> 'a) \<Rightarrow> docid \<Rightarrow> (docid \<rightharpoonup> 'a)" where
  "deleteDoc coll i = coll(i := None)"

datatype severity = Success | Error

datatype feedback =
    snackbar string severity
  | setError "string option"

text \<open>\<open>Number(x)\<close> of a form field of type \<open>number | ''\<close>: the empty string converts to 0.
  \<open>x || 0\<close> of an optional number: undefined and 0 both give 0.\<close>

definition Number :: "number option \<Rightarrow> number" where
  "Number x = (case x of None \<Rightarrow> 0 | Some n \<Rightarrow> n)"

definition or_zero :: "number option \<Rightarrow> number" where
  "or_zero x = (case x of None \<Rightarrow> 0 | Some n \<Rightarrow> n)"

definition js_div :: "number \<Rightarrow> number \<Rightarrow> number option" where
  "js_div a b = (if b = 0 then None else Some (a / b))"

section \<open>Untyped values: user documents and table rows\<close>

text \<open>Where the source asks a value whether it is there at all (\<open>!userData.role\<close>,
  \<open>valueA == null\<close>, \<open>typeof valueA\<close>), documents are maps from field names to JavaScript
  values.\<close>

datatype jsval =
    Undefined
  | Null
  | Bool bool
  | Num number
  | Str string
  | Ts Timestamp

type_synonym document = "string \<rightharpoonup> jsval"

definition field :: "document \<Rightarrow> string \<Rightarrow> jsval" where
  "field d k = (case d k of None \<Rightarrow> Undefined | Some v \<Rightarrow> v)"

fun truthy :: "jsval \<Rightarrow> bool" where
  "truthy Undefined = False"
| "truthy Null = False"
| "truthy (Bool b) = b"
| "truthy (Num n) = (n \<noteq> 0)"
| "truthy (Str s) = (s \<noteq> [])"
| "truthy (Ts t) = True"

section \<open>The store's rules (firestore.rules)\<close>

text \<open>The rules decide each call by the role of the signed-in caller, read from the
  caller's own users document: \<open>hasRole(role)\<close> is \<open>request.auth != null &&
  get(users/request.auth.uid).data.role == role\<close>, and fails when that document or its
  role is missing. \<open>auth\<close> is the id of the signed-in caller, if any.\<close>

definition hasRole :: "(docid \<rightharpoonup> document) \<Rightarrow> string option \<Rightarrow> string \<Rightarrow> bool" where
  "hasRole users auth role =
     (case auth of
        None \<Rightarrow> False
      | Some uid \<Rightarrow> (case users uid of None \<Rightarrow> False | Some d \<Rightarrow> d ''role'' = Some (Str role)))"

text \<open>\<open>match /users/{userId}\<close>: a caller reads and creates the document of their own id;
  admins and staff read any; only admins update.\<close>

definition allow_read_user :: "(docid \<rightharpoonup> document) \<Rightarrow> string option \<Rightarrow> docid \<Rightarrow> bool" where
  "allow_read_user users auth userId =
     (auth = Some userId \<or> hasRole users auth ''admin'' \<or> hasRole users auth ''staff'')"

definition allow_create_user :: "string option \<Rightarrow> docid \<Rightarrow> bool" where
  "allow_create_user auth userId = (auth = Some userId)"

definition allow_update_user :: "(docid \<rightharpoonup> document) \<Rightarrow> string option \<Rightarrow> bool" where
  "allow_update_user users auth = hasRole users auth ''admin''"




section \<open>Inventory page (Inventory.tsx)\<close>

text \<open>The Sell button of the dialog: \<open>disabled={!sellQuantity || (sellItem && sellQuantity >
  (sellItem.quantity || 0)) || sellPrice === ''}\<close>.\<close>

definition sellButtonDisabled :: "(docid \<times> InventoryItem) option \<Rightarrow> number \<Rightarrow> number option \<Rightarrow> bool" where
  "sellButtonDisabled sellItem sellQuantity sellPrice =
     (sellQuantity = 0
      \<or> (case sellItem of None \<Rightarrow> False
          | Some (itemId, item) \<Rightarrow> sellQuantity > or_zero (Some (item_quantity item)))
      \<or> sellPrice = None)"

definition handleSell ::
  "Firestore \<Rightarrow> docid \<Rightarrow> Timestamp \<Rightarrow> string \<Rightarrow> (docid \<times> InventoryItem) option \<Rightarrow> number \<Rightarrow> number option
     \<Rightarrow> string \<Rightarrow> string \<Rightarrow> feedback \<times> Firestore" where
  "handleSell db newId now uid sellItem sellQuantity sellPrice customerName customerMobile =
     (case sellItem of
        None \<Rightarrow> (setError (Some ''Please select an item and enter valid quantity and price''), db)
      | Some (itemId, item) \<Rightarrow>
          if sellQuantity \<le> 0 \<or> Number sellPrice \<le> 0
          then (setError (Some ''Please select an item and enter valid quantity and price''), db)
          else
            let saleRecord = \<lparr>
                  sale_itemId = itemId,
                  sale_name = item_name item,
                  sale_quantity = sellQuantity,
                  sale_price = Number sellPrice,
                  sale_total = sellQuantity * Number sellPrice,
                  sale_soldAt = now,
                  sale_category = item_category item,
                  sale_profit = (Number sellPrice - or_zero (item_avgCost item)) * sellQuantity,
                  sale_customerName = Some customerName,
                  sale_customerMobile = Some customerMobile,
                  sale_createdBy = Some uid \<rparr>
            in (case updateDoc (inventory db) itemId
                       (\<lambda>d. d\<lparr>item_quantity := item_quantity item - sellQuantity,
                               item_lastUpdated := Some now\<rparr>) of
                  None \<Rightarrow> (setError (Some ''Failed to sell item. Please try again.''), db)
                | Some stock \<Rightarrow>
                    (setError None, db\<lparr>inventory := stock, sales := addDoc (sales db) newId saleRecord\<rparr>)))"

text \<open>A click on the Sell button runs the handler only when the button is enabled; on a
  disabled button nothing runs, which is \<open>None\<close> here.\<close>

definition clickSell ::
  "Firestore \<Rightarrow> docid \<Rightarrow> Timestamp \<Rightarrow> string \<Rightarrow> (docid \<times> InventoryItem) option \<Rightarrow> number \<Rightarrow> number option
     \<Rightarrow> string \<Rightarrow> string \<Rightarrow> (feedback \<times> Firestore) option" where
  "clickSell db newId now uid sellItem sellQuantity sellPrice customerName customerMobile =
     (if sellButtonDisabled sellItem sellQuantity sellPrice then None
      else Some (handleSell db newId now uid sellItem sellQuantity sellPrice customerName customerMobile))"

text \<open>\<open>handlePurchase\<close> returns \<open>None\<close> where the source divides by a zero total quantity.\<close>

definition handlePurchase ::
  "Firestore \<Rightarrow> docid \<Rightarrow> Timestamp \<Rightarrow> string \<Rightarrow> (docid \<times> InventoryItem) option \<Rightarrow> number \<Rightarrow> number option
     \<Rightarrow> (feedback \<times> Firestore) option" where
  "handlePurchase db newId now uid purchaseItem purchaseQuantity purchasePrice =
     (case purchaseItem of
        None \<Rightarrow> Some (setError (Some ''Please select an item and enter valid quantity and price''), db)
      | Some (itemId, item) \<Rightarrow>
          if purchaseQuantity \<le> 0 \<or> Number purchasePrice \<le> 0
          then Some (setError (Some ''Please select an item and enter valid quantity and price''), db)
          else
            let purchaseRecord = \<lparr>
                  pur_itemId = itemId,
                  pur_name = item_name item,
                  pur_quantity = purchaseQuantity,
                  pur_price = Number purchasePrice,
                  pur_total = purchaseQuantity * Number purchasePrice,
                  pur_purchasedAt = now,
                  pur_category = item_category item,
                  pur_createdBy = Some uid \<rparr>;
                currentTotalCost = or_zero (item_avgCost item) * item_quantity item;
                purchaseTotalCost = purchaseQuantity * Number purchasePrice;
                newTotalQuantity = item_quantity item + purchaseQuantity
            in (case js_div (currentTotalCost + purchaseTotalCost) newTotalQuantity of
                  None \<Rightarrow> None
                | Some newAvgCost \<Rightarrow>
                   (case updateDoc (inventory db) itemId
                           (\<lambda>d. d\<lparr>item_quantity := item_quantity item + purchaseQuantity,
                                   item_avgCost := Some newAvgCost,
                                   item_lastUpdated := Some now\<rparr>) of
                      None \<Rightarrow> Some (setError (Some ''Failed to purchase item. Please try again.''), db)
                    | Some stock \<Rightarrow>
                        Some (setError None,
                              db\<lparr>inventory := stock, purchases := addDoc (purchases db) newId purchaseRecord\<rparr>))))"

definition handleAdjust ::
  "Firestore \<Rightarrow> docid \<Rightarrow> Timestamp \<Rightarrow> string \<Rightarrow> (docid \<times> InventoryItem) option \<Rightarrow> number option
     \<Rightarrow> string \<Rightarrow> string \<Rightarrow> feedback \<times> Firestore" where
  "handleAdjust db newId now uid adjustItem adjustQuantity adjustReason adjustDate =
     (case adjustItem of
        None \<Rightarrow> (snackbar ''Please enter a valid non-zero quantity, reason, and date for adjustment.'' Error, db)
      | Some (itemId, item) \<Rightarrow>
          if adjustQuantity = None \<or> Number adjustQuantity = 0 \<or> adjustReason = [] \<or> adjustDate = []
          then (snackbar ''Please enter a valid non-zero quantity, reason, and date for adjustment.'' Error, db)
          else
            let quantityChange = Number adjustQuantity;
                newQuantity = item_quantity item + quantityChange
            in if newQuantity < 0
               then (snackbar ''Adjustment would result in negative inventory quantity.'' Error, db)
               else
                 (case updateDoc (inventory db) itemId (\<lambda>d. d\<lparr>item_quantity := newQuantity\<rparr>) of
                    None \<Rightarrow> (snackbar ''Error adjusting inventory!'' Error, db)
                  | Some stock \<Rightarrow>
                      let adjustmentRecord = \<lparr>
                            adj_itemId = itemId,
                            adj_name = item_name item,
                            adj_quantity = quantityChange,
                            adj_reason = adjustReason,
                            adj_date = adjustDate,
                            adj_category = item_category item,
                            adj_createdAt = now,
                            adj_createdBy = Some uid \<rparr>
                      in (snackbar ''Inventory adjusted!'' Success,
                          db\<lparr>inventory := stock, adjustments := addDoc (adjustments db) newId adjustmentRecord\<rparr>)))"

section \<open>Sales page (the Sales component)\<close>

text \<open>The form state of the add/edit dialog. \<open>sf_soldAt\<close> is \<open>None\<close> for a null or invalid
  date, which is all the handler asks about it.\<close>

record SaleFormData =
  sf_itemId :: docid
  sf_name :: string
  sf_quantity :: number
  sf_price :: number
  sf_soldAt :: "Timestamp option"
  sf_customerName :: string
  sf_customerMobile :: string

text \<open>\<open>inventoryItems\<close> is the page's cached copy of the inventory collection and
  \<open>editingSale\<close> the record under edit (absent in the add dialog). The record to save
  names no \<open>createdBy\<close>: an \<open>addDoc\<close> stores none and an \<open>updateDoc\<close> keeps the stored one.\<close>

definition handleSubmitSale ::
  "Firestore \<Rightarrow> docid \<Rightarrow> (docid \<times> InventoryItem) list \<Rightarrow> (docid \<times> SaleRecord) option \<Rightarrow> SaleFormData
     \<Rightarrow> feedback \<times> Firestore" where
  "handleSubmitSale db newId inventoryItems editingSale saleFormData =
     (if sf_itemId saleFormData = [] \<or> sf_quantity saleFormData \<le> 0 \<or> sf_price saleFormData \<le> 0
         \<or> sf_soldAt saleFormData = None
      then (snackbar ''Please fix the errors in the form.'' Error, db)
      else
        case find (\<lambda>item. fst item = sf_itemId saleFormData) inventoryItems of
          None \<Rightarrow> (snackbar ''Selected inventory item not found.'' Error, db)
        | Some (selectedId, selectedItem) \<Rightarrow>
           (case sf_soldAt saleFormData of
              None \<Rightarrow> (snackbar ''Please select a valid date and time.'' Error, db)
            | Some soldAt \<Rightarrow>
               let saleRecordToSave = \<lparr>
                     sale_itemId = sf_itemId saleFormData,
                     sale_name = item_name selectedItem,
                     sale_quantity = sf_quantity saleFormData,
                     sale_price = sf_price saleFormData,
                     sale_total = sf_quantity saleFormData * sf_price saleFormData,
                     sale_soldAt = soldAt,
                     sale_category = item_category selectedItem,
                     sale_profit =
                       (case item_avgCost selectedItem of
                          Some avgCost \<Rightarrow> (sf_price saleFormData - avgCost) * sf_quantity saleFormData
                        | None \<Rightarrow> sf_quantity saleFormData * sf_price saleFormData),
                     sale_customerName = Some (sf_customerName saleFormData),
                     sale_customerMobile = Some (sf_customerMobile saleFormData),
                     sale_createdBy = None \<rparr>
               in (case editingSale of
                     Some (editingId, editing) \<Rightarrow>
                      (case updateDoc (sales db) editingId
                              (\<lambda>d. saleRecordToSave\<lparr>sale_createdBy := sale_createdBy d\<rparr>) of
                         None \<Rightarrow> (snackbar ''Error saving sale record!'' Error, db)
                       | Some sales1 \<Rightarrow>
                          let db1 = db\<lparr>sales := sales1\<rparr>;
                              oldQuantity = sale_quantity editing;
                              newQuantity = sf_quantity saleFormData;
                              quantityDifference = oldQuantity - newQuantity
                          in (case getDoc (inventory db1) selectedId of
                                Some inventoryDoc \<Rightarrow>
                                  let currentInventoryQuantity = item_quantity inventoryDoc;
                                      updatedInventoryQuantity = currentInventoryQuantity + quantityDifference
                                  in (case updateDoc (inventory db1) selectedId
                                             (\<lambda>d. d\<lparr>item_quantity := updatedInventoryQuantity\<rparr>) of
                                        None \<Rightarrow> (snackbar ''Error saving sale record!'' Error, db1)
                                      | Some stock \<Rightarrow>
                                          (snackbar ''Sale record updated and inventory adjusted!'' Success,
                                           db1\<lparr>inventory := stock\<rparr>))
                              | None \<Rightarrow>
                                  (snackbar ''Sale record updated and inventory adjusted!'' Success, db1)))
                   | None \<Rightarrow>
                      let db1 = db\<lparr>sales := addDoc (sales db) newId saleRecordToSave\<rparr>
                      in (case getDoc (inventory db1) selectedId of
                            Some inventoryDoc \<Rightarrow>
                              let currentInventoryQuantity = item_quantity inventoryDoc
                              in if currentInventoryQuantity \<ge> sf_quantity saleFormData
                                 then
                                   let updatedInventoryQuantity = currentInventoryQuantity - sf_quantity saleFormData
                                   in (case updateDoc (inventory db1) selectedId
                                              (\<lambda>d. d\<lparr>item_quantity := updatedInventoryQuantity\<rparr>) of
                                         None \<Rightarrow> (snackbar ''Error saving sale record!'' Error, db1)
                                       | Some stock \<Rightarrow>
                                           (snackbar ''Sale record added and inventory updated!'' Success,
                                            db1\<lparr>inventory := stock\<rparr>))
                                 else (snackbar ''Sale record added, but insufficient stock in inventory!'' Error, db1)
                          | None \<Rightarrow>
                              (snackbar ''Sale record added, but linked inventory item not found!'' Error, db1)))))"

section \<open>Purchases page (Purchases.tsx)\<close>

record PurchaseFormData =
  pf_itemId :: docid
  pf_quantity :: number
  pf_price :: number
  pf_purchasedAt :: "Timestamp option"

text \<open>\<open>purchasesList\<close> is the page's cached copy of the purchases collection.\<close>

definition handleSubmitPurchase ::
  "Firestore \<Rightarrow> docid \<Rightarrow> (docid \<times> InventoryItem) list \<Rightarrow> (docid \<times> PurchaseRecord) list
     \<Rightarrow> (docid \<times> PurchaseRecord) option \<Rightarrow> PurchaseFormData \<Rightarrow> feedback \<times> Firestore" where
  "handleSubmitPurchase db newId inventoryItems purchasesList editingPurchase purchaseFormData =
     (if pf_itemId purchaseFormData = [] \<or> pf_quantity purchaseFormData \<le> 0 \<or> pf_price purchaseFormData < 0
         \<or> pf_purchasedAt purchaseFormData = None
      then (snackbar ''Please fix the errors in the form.'' Error, db)
      else
        case find (\<lambda>item. fst item = pf_itemId purchaseFormData) inventoryItems of
          None \<Rightarrow> (snackbar ''Selected inventory item not found.'' Error, db)
        | Some (selectedId, selectedItem) \<Rightarrow>
           (case pf_purchasedAt purchaseFormData of
              None \<Rightarrow> (snackbar ''Please select a valid date and time.'' Error, db)
            | Some purchasedAt \<Rightarrow>
               let purchaseRecordToSave = \<lparr>
                     pur_itemId = pf_itemId purchaseFormData,
                     pur_name = item_name selectedItem,
                     pur_quantity = pf_quantity purchaseFormData,
                     pur_price = pf_price purchaseFormData,
                     pur_total = pf_quantity purchaseFormData * pf_price purchaseFormData,
                     pur_purchasedAt = purchasedAt,
                     pur_category = item_category selectedItem,
                     pur_createdBy = None \<rparr>
               in (case getDoc (inventory db) selectedId of
                     None \<Rightarrow> (snackbar ''Linked inventory item not found for update!'' Error, db)
                   | Some currentInventoryData \<Rightarrow>
                      let currentInventoryQuantity = item_quantity currentInventoryData
                      in (case editingPurchase of
                            Some (editingId, editing) \<Rightarrow>
                             (case updateDoc (purchases db) editingId
                                     (\<lambda>d. purchaseRecordToSave\<lparr>pur_createdBy := pur_createdBy d\<rparr>) of
                                None \<Rightarrow> (snackbar ''Error saving purchase record!'' Error, db)
                              | Some purchases1 \<Rightarrow>
                                 let db1 = db\<lparr>purchases := purchases1\<rparr>
                                 in (case find (\<lambda>pur. fst pur = editingId) purchasesList of
                                       Some (originalId, originalPurchase) \<Rightarrow>
                                         let oldQuantity = pur_quantity originalPurchase;
                                             newQuantity = pf_quantity purchaseFormData;
                                             quantityChange = newQuantity - oldQuantity;
                                             updatedInventoryQuantity = currentInventoryQuantity + quantityChange
                                         in if updatedInventoryQuantity < 0
                                            then (snackbar ''Purchase edit would result in negative inventory quantity. Operation cancelled.'' Error, db1)
                                            else
                                              (case updateDoc (inventory db1) selectedId
                                                      (\<lambda>d. d\<lparr>item_quantity := updatedInventoryQuantity,
                                                              item_price := pf_price purchaseFormData\<rparr>) of
                                                 None \<Rightarrow> (snackbar ''Error saving purchase record!'' Error, db1)
                                               | Some stock \<Rightarrow>
                                                   (snackbar ''Purchase record updated and inventory adjusted!'' Success,
                                                    db1\<lparr>inventory := stock\<rparr>))
                                     | None \<Rightarrow>
                                         (snackbar ''Error finding original purchase record for inventory update.'' Error, db1)))
                          | None \<Rightarrow>
                             let db1 = db\<lparr>purchases := addDoc (purchases db) newId purchaseRecordToSave\<rparr>;
                                 updatedInventoryQuantity = currentInventoryQuantity + pf_quantity purchaseFormData
                             in (case updateDoc (inventory db1) selectedId
                                        (\<lambda>d. d\<lparr>item_quantity := updatedInventoryQuantity,
                                                item_price := pf_price purchaseFormData\<rparr>) of
                                   None \<Rightarrow> (snackbar ''Error saving purchase record!'' Error, db1)
                                 | Some stock \<Rightarrow>
                                     (snackbar ''Purchase record added and inventory updated!'' Success,
                                      db1\<lparr>inventory := stock\<rparr>))))))"


section \<open>Adjustments page (Adjustments.tsx)\<close>

record AdjustmentFormData =
  af_itemId :: docid
  af_quantity :: number
  af_reason :: string
  af_date :: string

text \<open>\<open>adjustmentsList\<close> is the page's cached copy of the adjustments collection.\<close>

definition handleSubmitAdjustment ::
  "Firestore \<Rightarrow> docid \<Rightarrow> Timestamp \<Rightarrow> (docid \<times> InventoryItem) list \<Rightarrow> (docid \<times> AdjustmentRecord) list
     \<Rightarrow> (docid \<times> AdjustmentRecord) option \<Rightarrow> AdjustmentFormData \<Rightarrow> feedback \<times> Firestore" where
  "handleSubmitAdjustment db newId now inventoryItems adjustmentsList editingAdjustment adjustmentFormData =
     (if af_itemId adjustmentFormData = [] \<or> af_quantity adjustmentFormData = 0
         \<or> af_reason adjustmentFormData = [] \<or> af_date adjustmentFormData = []
      then (snackbar ''Please fill all required fields (Item, Quantity, Reason, Date). Quantity cannot be zero.'' Error, db)
      else
        case find (\<lambda>item. fst item = af_itemId adjustmentFormData) inventoryItems of
          None \<Rightarrow> (snackbar ''Selected inventory item not found.'' Error, db)
        | Some (selectedId, selectedItem) \<Rightarrow>
           let adjustmentRecordToSave = \<lparr>
                 adj_itemId = af_itemId adjustmentFormData,
                 adj_name = item_name selectedItem,
                 adj_quantity = af_quantity adjustmentFormData,
                 adj_reason = af_reason adjustmentFormData,
                 adj_date = af_date adjustmentFormData,
                 adj_category = item_category selectedItem,
                 adj_createdAt = now,
                 adj_createdBy = None \<rparr>
           in (case editingAdjustment of
                 Some (editingId, editing) \<Rightarrow>
                  (case updateDoc (adjustments db) editingId
                          (\<lambda>d. adjustmentRecordToSave\<lparr>adj_createdBy := adj_createdBy d\<rparr>) of
                     None \<Rightarrow> (snackbar ''Error saving adjustment record!'' Error, db)
                   | Some adjustments1 \<Rightarrow>
                      let db1 = db\<lparr>adjustments := adjustments1\<rparr>
                      in (case find (\<lambda>adj. fst adj = editingId) adjustmentsList of
                            Some (originalId, originalAdjustment) \<Rightarrow>
                              let oldQuantityChange = adj_quantity originalAdjustment;
                                  newQuantityChange = af_quantity adjustmentFormData;
                                  inventoryChange = newQuantityChange - oldQuantityChange
                              in (case getDoc (inventory db1) selectedId of
                                    Some inventoryDoc \<Rightarrow>
                                      let currentInventoryQuantity = item_quantity inventoryDoc;
                                          updatedInventoryQuantity = currentInventoryQuantity + inventoryChange
                                      in if updatedInventoryQuantity < 0
                                         then (snackbar ''Adjustment edit would result in negative inventory quantity. Operation cancelled.'' Error, db1)
                                         else
                                           (case updateDoc (inventory db1) selectedId
                                                   (\<lambda>d. d\<lparr>item_quantity := updatedInventoryQuantity\<rparr>) of
                                              None \<Rightarrow> (snackbar ''Error saving adjustment record!'' Error, db1)
                                            | Some stock \<Rightarrow>
                                                (snackbar ''Adjustment record updated and inventory adjusted!'' Success,
                                                 db1\<lparr>inventory := stock\<rparr>))
                                  | None \<Rightarrow>
                                      (snackbar ''Adjustment record updated, but linked inventory item not found!'' Error, db1))
                          | None \<Rightarrow>
                              (snackbar ''Error finding original adjustment record for inventory update.'' Error, db1)))
               | None \<Rightarrow>
                  let db1 = db\<lparr>adjustments := addDoc (adjustments db) newId adjustmentRecordToSave\<rparr>
                  in (case getDoc (inventory db1) selectedId of
                        Some inventoryDoc \<Rightarrow>
                          let currentInventoryQuantity = item_quantity inventoryDoc;
                              updatedInventoryQuantity = currentInventoryQuantity + af_quantity adjustmentFormData;
                              shown =
                                (if updatedInventoryQuantity < 0
                                 then snackbar ''Adjustment record added, but would result in negative inventory quantity!'' Error
                                 else snackbar ''Adjustment record added and inventory updated!'' Success)
                          in (case updateDoc (inventory db1) selectedId
                                     (\<lambda>d. d\<lparr>item_quantity := updatedInventoryQuantity\<rparr>) of
                                None \<Rightarrow> (snackbar ''Error saving adjustment record!'' Error, db1)
                              | Some stock \<Rightarrow> (shown, db1\<lparr>inventory := stock\<rparr>))
                      | None \<Rightarrow>
                          (snackbar ''Adjustment record added, but linked inventory item not found!'' Error, db1))))"

section \<open>Staff dashboard (the StaffDashboard component)\<close>

text \<open>The dashboard declares its own shapes for the two collections it touches.\<close>

record DashInventoryItem =
  dash_name :: string
  dash_quantity :: number
  dash_price :: number
  dash_category :: string
  dash_lastUpdated :: Timestamp

record SaleLine =
  line_itemId :: docid
  line_name :: string
  line_quantity :: number
  line_price :: number

record Sale =
  dsale_items :: "SaleLine list"
  dsale_total :: number
  dsale_date :: Timestamp
  dsale_createdBy :: string

record DashStore =
  dash_inventory :: "docid \<rightharpoonup> DashInventoryItem"
  dash_sales :: "docid \<rightharpoonup> Sale"

datatype dash_feedback = dashError string | dashSuccess string

text \<open>\<open>salePrice\<close> is the text of the price field: \<open>None\<close> is the empty text, \<open>Some p\<close> a
  text that \<open>Number\<close> reads as \<open>p\<close>.\<close>

definition handleCreateSale ::
  "DashStore \<Rightarrow> docid \<Rightarrow> Timestamp \<Rightarrow> string \<Rightarrow> (docid \<times> DashInventoryItem) option \<Rightarrow> number \<Rightarrow> number option
     \<Rightarrow> dash_feedback \<times> DashStore" where
  "handleCreateSale db newId now uid selectedItem saleQuantity salePrice =
     (case selectedItem of
        None \<Rightarrow> (dashError ''Please select an item and enter valid quantity and price'', db)
      | Some (itemId, item) \<Rightarrow>
          if saleQuantity \<le> 0 \<or> salePrice = None
          then (dashError ''Please select an item and enter valid quantity and price'', db)
          else if dash_quantity item < saleQuantity
          then (dashError ''Not enough stock available'', db)
          else
            let total = saleQuantity * Number salePrice;
                db1 = db\<lparr>dash_sales := addDoc (dash_sales db) newId
                        \<lparr> dsale_items = [\<lparr> line_itemId = itemId, line_name = dash_name item,
                                            line_quantity = saleQuantity, line_price = Number salePrice \<rparr>],
                          dsale_total = total,
                          dsale_date = now,
                          dsale_createdBy = uid \<rparr>\<rparr>
            in (case updateDoc (dash_inventory db1) itemId
                       (\<lambda>d. d\<lparr>dash_quantity := dash_quantity item - saleQuantity,
                               dash_lastUpdated := now\<rparr>) of
                  None \<Rightarrow> (dashError ''Failed to create sale'', db1)
                | Some stock \<Rightarrow> (dashSuccess ''Sale created successfully'', db1\<lparr>dash_inventory := stock\<rparr>)))"

section \<open>Sign-in (the Login component)\<close>

record User =
  user_uid :: string
  user_email :: "string option"

text \<open>\<open>signIn\<close> stands for the auth provider: it answers a pair of credentials with the
  signed-in user or with the provider's error text. The handler returns what it shows
  and the users collection it leaves. After the sign-in the caller of every store call
  is the signed-in user, and the rules decide each call; a refused call throws the
  store's error, whose text the outer \<open>catch\<close> shows (the inner \<open>catch\<close> around \<open>setDoc\<close>
  replaces it by its own).\<close>

definition Login_handleSubmit ::
  "(docid \<rightharpoonup> document) \<Rightarrow> (string \<Rightarrow> string \<Rightarrow> string + User) \<Rightarrow> Timestamp \<Rightarrow> string \<Rightarrow> string
     \<Rightarrow> feedback \<times> (docid \<rightharpoonup> document)" where
  "Login_handleSubmit users signIn now email password =
     (if email = [] \<or> password = [] then (setError (Some ''Please enter both email and password.''), users)
      else if length password < 6 then (setError (Some ''Password must be at least 6 characters.''), users)
      else
        case signIn email password of
          Inl message \<Rightarrow> (snackbar message Error, users)
        | Inr user \<Rightarrow>
           let auth = Some (user_uid user)
           in if \<not> allow_read_user users auth (user_uid user)
              then (snackbar ''Missing or insufficient permissions.'' Error, users)
              else
                (case (case getDoc users (user_uid user) of
                         None \<Rightarrow>
                           if allow_create_user auth (user_uid user)
                           then Inr (users(user_uid user \<mapsto>
                                   [''uid'' \<mapsto> Str (user_uid user),
                                    ''email'' \<mapsto> (case user_email user of None \<Rightarrow> Null | Some e \<Rightarrow> Str e),
                                    ''role'' \<mapsto> Str ''staff'',
                                    ''createdAt'' \<mapsto> Ts now]))
                           else Inl ''Failed to create user profile''
                       | Some userData \<Rightarrow>
                           if \<not> truthy (field userData ''role'')
                           then
                             if allow_update_user users auth
                             then (case updateDoc users (user_uid user) (\<lambda>d. d(''role'' \<mapsto> Str ''staff'')) of
                                     None \<Rightarrow> Inl ''No document to update''
                                   | Some users1 \<Rightarrow> Inr users1)
                             else Inl ''Missing or insufficient permissions.''
                           else Inr users) of
                   Inl message \<Rightarrow> (snackbar message Error, users)
                 | Inr users1 \<Rightarrow>
                    (case getDoc users1 (user_uid user) of
                       None \<Rightarrow> (snackbar ''Failed to verify user role'' Error, users1)
                     | Some updatedUserDoc \<Rightarrow>
                         if \<not> truthy (field updatedUserDoc ''role'')
                         then (snackbar ''Failed to verify user role'' Error, users1)
                         else (snackbar ''Login successful!'' Success, users1))))"

section \<open>Access gate (firebase.ts, ProtectedRoute.tsx)\<close>

definition getUserRole :: "(docid \<rightharpoonup> document) \<Rightarrow> string option \<Rightarrow> string + jsval" where
  "getUserRole users userId =
     (case userId of
        None \<Rightarrow> Inl ''User ID is required''
      | Some u \<Rightarrow>
          if u = [] then Inl ''User ID is required''
          else
            (case getDoc users u of
               Some userData \<Rightarrow>
                 if \<not> truthy (field userData ''role'') then Inl ''User role not found''
                 else Inr (field userData ''role'')
             | None \<Rightarrow> Inl ''User document not found''))"

text \<open>The component's state: the two outputs of the \<open>useAuthState\<close> hook, the three
  \<open>useState\<close> cells, and \<open>pending\<close>, the user id of the role lookup that the latest run
  of the effect has started and that has not answered yet (a lookup started by an
  earlier run is cut off from the state by its \<open>isMounted\<close> flag).\<close>

record GateState =
  user :: "User option"
  loading :: bool
  userRole :: jsval
  isRoleLoading :: bool
  error :: "string option"
  pending :: "string option"

datatype view = Spinner | ErrorMessage string | NavigateLogin | AccessDenied | Outlet

text \<open>What the component returns, in the order of its \<open>if\<close> statements.\<close>

definition render :: "string option \<Rightarrow> GateState \<Rightarrow> view" where
  "render requiredRole s =
     (if loading s \<or> isRoleLoading s then Spinner
      else case error s of
        Some message \<Rightarrow> ErrorMessage message
      | None \<Rightarrow>
         (case user s of
            None \<Rightarrow> NavigateLogin
          | Some u \<Rightarrow>
              if (case requiredRole of None \<Rightarrow> False | Some r \<Rightarrow> r \<noteq> [] \<and> userRole s \<noteq> Str r)
              then AccessDenied
              else Outlet))"

text \<open>The effect \<open>useEffect(..., [user])\<close> up to its first \<open>await\<close>: it runs after the
  first render and after every render in which \<open>user\<close> has changed.\<close>

definition fetchRole_start :: "GateState \<Rightarrow> GateState" where
  "fetchRole_start s =
     (case user s of
        None \<Rightarrow> s\<lparr>userRole := Null, isRoleLoading := False, pending := None\<rparr>
      | Some u \<Rightarrow> s\<lparr>pending := Some (user_uid u)\<rparr>)"

text \<open>The rest of the effect, run when the lookup answers.\<close>

definition fetchRole_finish :: "(docid \<rightharpoonup> document) \<Rightarrow> GateState \<Rightarrow> GateState" where
  "fetchRole_finish users s =
     (case pending s of
        None \<Rightarrow> s
      | Some u \<Rightarrow>
         (case getUserRole users (Some u) of
            Inr role \<Rightarrow> s\<lparr>userRole := role, error := None, isRoleLoading := False, pending := None\<rparr>
          | Inl message \<Rightarrow>
              s\<lparr>userRole := Null,
                error := Some ''Failed to verify user role. Please try logging in again.'',
                isRoleLoading := False, pending := None\<rparr>))"

text \<open>Mounting: the \<open>useState\<close> initial values with the hook's first output, then the
  effect. A change of the hook's output: the new output, then the effect.\<close>

definition mount :: "User option \<Rightarrow> bool \<Rightarrow> GateState" where
  "mount u l =
     fetchRole_start \<lparr> user = u, loading = l, userRole = Null, isRoleLoading = True,
                       error = None, pending = None \<rparr>"

definition authStateChanged :: "User option \<Rightarrow> GateState \<Rightarrow> GateState" where
  "authStateChanged u s = fetchRole_start (s\<lparr>user := u, loading := False\<rparr>)"

section \<open>Table sorting (the comparators of the sales, purchases and adjustments pages)\<close>

datatype Order = asc | desc

definition nullish :: "jsval \<Rightarrow> bool" where
  "nullish v = (v = Undefined \<or> v = Null)"

definition toLowerCase :: "string \<Rightarrow> string" where
  "toLowerCase s =
     map (\<lambda>c. if CHR ''A'' \<le> c \<and> c \<le> CHR ''Z'' then char_of (of_char c + (32::nat)) else c) s"

definition getTime :: "jsval \<Rightarrow> number" where
  "getTime v = (case v of Ts t \<Rightarrow> of_int t | _ \<Rightarrow> 0)"

text \<open>The three pages carry the same comparator; they differ in the name of their
  timestamp column, the first argument here. A row is read by column name and gives
  \<open>Undefined\<close> for a column it does not have.\<close>

definition comparator :: "string \<Rightarrow> Order \<Rightarrow> string \<Rightarrow> (string \<Rightarrow> jsval) \<Rightarrow> (string \<Rightarrow> jsval) \<Rightarrow> number" where
  "comparator timeColumn order orderBy a b =
     (let valueA = a orderBy; valueB = b orderBy
      in if nullish valueA \<and> nullish valueB then 0
         else if nullish valueA then (if order = asc then - 1 else 1)
         else if nullish valueB then (if order = asc then 1 else - 1)
         else if orderBy = timeColumn then
           (let dateA = getTime valueA; dateB = getTime valueB
            in if order = asc then dateA - dateB else dateB - dateA)
         else
           case (valueA, valueB) of
             (Num x, Num y) \<Rightarrow> (if order = asc then x - y else y - x)
           | (Str x, Str y) \<Rightarrow>
               (let stringA = toLowerCase x; stringB = toLowerCase y
                in if stringB < stringA then (if order = asc then 1 else - 1)
                   else if stringB > stringA then (if order = asc then - 1 else 1)
                   else 0)
           | _ \<Rightarrow> 0)"

definition sortedSales_comparator :: "Order \<Rightarrow> string \<Rightarrow> (string \<Rightarrow> jsval) \<Rightarrow> (string \<Rightarrow> jsval) \<Rightarrow> number" where
  "sortedSales_comparator = comparator ''soldAt''"

definition sortedPurchases_comparator :: "Order \<Rightarrow> string \<Rightarrow> (string \<Rightarrow> jsval) \<Rightarrow> (string \<Rightarrow> jsval) \<Rightarrow> number" where
  "sortedPurchases_comparator = comparator ''purchasedAt''"

definition sortedAdjustments_comparator :: "Order \<Rightarrow> string \<Rightarrow> (string \<Rightarrow> jsval) \<Rightarrow> (string \<Rightarrow> jsval) \<Rightarrow> number" where
  "sortedAdjustments_comparator = comparator ''createdAt''"

section \<open>Observations and sample data\<close>

text \<open>The stored quantity of an item, if the item is there.\<close>

definition quantityOf :: "Firestore \<Rightarrow> docid \<Rightarrow> number option" where
  "quantityOf db i = map_option item_quantity (inventory db i)"

text \<open>A small shop: one item with 10 units at average cost 5 (the scenario of the
  specification), one sale, two purchases and one adjustment made from the inventory
  page by user \<open>u1\<close>.\<close>

definition widget :: InventoryItem where
  "widget = \<lparr> item_name = ''widget'', item_quantity = 10, item_price = 4, item_avgCost = Some 5,
               item_category = ''tools'', item_lastUpdated = None \<rparr>"

definition sale1 :: SaleRecord where
  "sale1 = \<lparr> sale_itemId = ''i1'', sale_name = ''widget'', sale_quantity = 3, sale_price = 12,
              sale_total = 36, sale_soldAt = 100, sale_category = ''tools'', sale_profit = 21,
              sale_customerName = Some ''Ann'', sale_customerMobile = Some [],
              sale_createdBy = Some ''u1'' \<rparr>"

definition purchase1 :: PurchaseRecord where
  "purchase1 = \<lparr> pur_itemId = ''i1'', pur_name = ''widget'', pur_quantity = 4, pur_price = 7,
                  pur_total = 28, pur_purchasedAt = 100, pur_category = ''tools'',
                  pur_createdBy = Some ''u1'' \<rparr>"

definition purchase2 :: PurchaseRecord where
  "purchase2 = \<lparr> pur_itemId = ''i1'', pur_name = ''widget'', pur_quantity = 12, pur_price = 7,
                  pur_total = 84, pur_purchasedAt = 100, pur_category = ''tools'',
                  pur_createdBy = Some ''u1'' \<rparr>"

definition adjustment1 :: AdjustmentRecord where
  "adjustment1 = \<lparr> adj_itemId = ''i1'', adj_name = ''widget'', adj_quantity = 12,
                    adj_reason = ''Correction'', adj_date = ''2025-01-01'', adj_category = ''tools'',
                    adj_createdAt = 100, adj_createdBy = Some ''u1'' \<rparr>"

definition shop :: Firestore where
  "shop = \<lparr> inventory = [''i1'' \<mapsto> widget], sales = [''s1'' \<mapsto> sale1],
             purchases = [''p1'' \<mapsto> purchase1, ''p2'' \<mapsto> purchase2],
             adjustments = [''a1'' \<mapsto> adjustment1] \<rparr>"

definition saleForm :: "number \<Rightarrow> SaleFormData" where
  "saleForm q = \<lparr> sf_itemId = ''i1'', sf_name = ''widget'', sf_quantity = q, sf_price = 12,
                   sf_soldAt = Some 200, sf_customerName = ''Bob'', sf_customerMobile = [] \<rparr>"

definition purchaseForm :: "number \<Rightarrow> PurchaseFormData" where
  "purchaseForm q = \<lparr> pf_itemId = ''i1'', pf_quantity = q, pf_price = 7, pf_purchasedAt = Some 200 \<rparr>"

definition adjustmentForm :: "number \<Rightarrow> AdjustmentFormData" where
  "adjustmentForm q = \<lparr> af_itemId = ''i1'', af_quantity = q, af_reason = ''Recount'',
                         af_date = ''2025-02-02'' \<rparr>"

definition dashWidget :: DashInventoryItem where
  "dashWidget = \<lparr> dash_name = ''widget'', dash_quantity = 10, dash_price = 4,
                   dash_category = ''tools'', dash_lastUpdated = 100 \<rparr>"

definition dashShop :: DashStore where
  "dashShop = \<lparr> dash_inventory = [''i1'' \<mapsto> dashWidget], dash_sales = Map.empty \<rparr>"

text \<open>Two identities and a users collection: \<open>u1\<close> is an admin, \<open>u2\<close> has a document
  without a role, \<open>u3\<close> has no document.\<close>

definition adminUser :: User where
  "adminUser = \<lparr> user_uid = ''u1'', user_email = Some ''admin@shop'' \<rparr>"

definition accounts :: "docid \<rightharpoonup> document" where
  "accounts = [''u1'' \<mapsto> [''uid'' \<mapsto> Str ''u1'', ''role'' \<mapsto> Str ''admin''],
               ''u2'' \<mapsto> [''uid'' \<mapsto> Str ''u2'', ''email'' \<mapsto> Str ''old@shop'']]"


definition provider :: "string \<Rightarrow> string \<Rightarrow> string + User" where
  "provider email password =
     (if email = ''old@shop'' \<and> password = ''secret2'' then Inr \<lparr> user_uid = ''u2'', user_email = Some ''old@shop'' \<rparr>
      else if email = ''new@shop'' \<and> password = ''secret3'' then Inr \<lparr> user_uid = ''u3'', user_email = Some ''new@shop'' \<rparr>
      else Inl ''Firebase: Error (auth/invalid-credential).'')"

text \<open>Two table rows: the first has no \<open>name\<close> column.\<close>

definition rowA :: "string \<Rightarrow> jsval" where
  "rowA column = (if column = ''quantity'' then Num 2 else Undefined)"

definition rowB :: "string \<Rightarrow> jsval" where
  "rowB column = (if column = ''quantity'' then Num 1 else if column = ''name'' then Str ''bolt'' else Undefined)"

section \<open>Properties\<close>

lemmas sdk = getDoc_def addDoc_def updateDoc_def deleteDoc_def Let_def

lemmas samples = shop_def widget_def sale1_def purchase1_def purchase2_def adjustment1_def
  saleForm_def purchaseForm_def adjustmentForm_def dashShop_def dashWidget_def

subsection \<open>Profit of a sale\<close>

lemma handleSell_profit:
  assumes "0 < q" and "0 < p" and "inventory db itemId = Some stored"
  shows "map_option sale_profit
           (sales (snd (handleSell db newId now uid (Some (itemId, item)) q (Some p) cn cm)) newId)
         = Some (case item_avgCost item of Some c \<Rightarrow> (p - c) * q | None \<Rightarrow> p * q)"
  using assms
  by (simp add: handleSell_def Number_def or_zero_def sdk split: option.splits)

lemma handleSubmitSale_add_profit:
  assumes "sf_itemId f \<noteq> []" and "0 < sf_quantity f" and "0 < sf_price f" and "sf_soldAt f = Some t"
    and "find (\<lambda>item. fst item = sf_itemId f) items = Some (iid, item)"
  shows "map_option sale_profit (sales (snd (handleSubmitSale db newId items None f)) newId)
         = Some (case item_avgCost item of Some c \<Rightarrow> (sf_price f - c) * sf_quantity f
                 | None \<Rightarrow> sf_price f * sf_quantity f)"
  using assms
  by (simp add: handleSubmitSale_def sdk split: option.splits)

lemma handleSubmitSale_edit_profit:
  assumes "sf_itemId f \<noteq> []" and "0 < sf_quantity f" and "0 < sf_price f" and "sf_soldAt f = Some t"
    and "find (\<lambda>item. fst item = sf_itemId f) items = Some (iid, item)"
    and "sales db eid = Some old"
  shows "map_option sale_profit (sales (snd (handleSubmitSale db newId items (Some (eid, e)) f)) eid)
         = Some (case item_avgCost item of Some c \<Rightarrow> (sf_price f - c) * sf_quantity f
                 | None \<Rightarrow> sf_price f * sf_quantity f)"
  using assms
  by (simp add: handleSubmitSale_def sdk split: option.splits)

text \<open>
  Claim C4. A sale of quantity \<open>q\<close> at price \<open>p\<close> against an item of average cost \<open>c\<close>
  records the profit \<open>(p - c) * q\<close>, and \<open>p * q\<close> when the item has no average cost. This
  holds for the Sell dialog of the inventory page (\<open>handleSell\<close>, on a sale that passes
  its validation and finds the inventory document) and for the add and the edit branch
  of the sales page (\<open>handleSubmitSale\<close>, on a form that passes its validation and whose
  item is in the page's list; for the edit, the record under edit is stored).
\<close>

theorem recorded_profit:
  "(0 < q \<and> 0 < p \<and> inventory db itemId = Some stored \<longrightarrow>
      map_option sale_profit
        (sales (snd (handleSell db newId now uid (Some (itemId, item)) q (Some p) cn cm)) newId)
      = Some (case item_avgCost item of Some c \<Rightarrow> (p - c) * q | None \<Rightarrow> p * q))
   \<and> (sf_itemId f \<noteq> [] \<and> 0 < sf_quantity f \<and> 0 < sf_price f \<and> sf_soldAt f = Some t
        \<and> find (\<lambda>item. fst item = sf_itemId f) items = Some (iid, selected) \<longrightarrow>
      map_option sale_profit (sales (snd (handleSubmitSale dbf newIdf items None f)) newIdf)
      = Some (case item_avgCost selected of Some c \<Rightarrow> (sf_price f - c) * sf_quantity f
              | None \<Rightarrow> sf_price f * sf_quantity f))
   \<and> (sf_itemId g \<noteq> [] \<and> 0 < sf_quantity g \<and> 0 < sf_price g \<and> sf_soldAt g = Some tg
        \<and> find (\<lambda>item. fst item = sf_itemId g) itemsg = Some (iidg, selectedg)
        \<and> sales dbg eid = Some old \<longrightarrow>
      map_option sale_profit (sales (snd (handleSubmitSale dbg newIdg itemsg (Some (eid, e)) g)) eid)
      = Some (case item_avgCost selectedg of Some c \<Rightarrow> (sf_price g - c) * sf_quantity g
              | None \<Rightarrow> sf_price g * sf_quantity g))"
proof (intro conjI impI)
  assume sell: "0 < q \<and> 0 < p \<and> inventory db itemId = Some stored"
  show "map_option sale_profit
        (sales (snd (handleSell db newId now uid (Some (itemId, item)) q (Some p) cn cm)) newId)
      = Some (case item_avgCost item of Some c \<Rightarrow> (p - c) * q | None \<Rightarrow> p * q)"
    using sell handleSell_profit [of q p db itemId stored] by simp
next
  assume add: "sf_itemId f \<noteq> [] \<and> 0 < sf_quantity f \<and> 0 < sf_price f \<and> sf_soldAt f = Some t
        \<and> find (\<lambda>item. fst item = sf_itemId f) items = Some (iid, selected)"
  show "map_option sale_profit (sales (snd (handleSubmitSale dbf newIdf items None f)) newIdf)
      = Some (case item_avgCost selected of Some c \<Rightarrow> (sf_price f - c) * sf_quantity f
              | None \<Rightarrow> sf_price f * sf_quantity f)"
    using add handleSubmitSale_add_profit [of f t items iid selected] by simp
next
  assume edit: "sf_itemId g \<noteq> [] \<and> 0 < sf_quantity g \<and> 0 < sf_price g \<and> sf_soldAt g = Some tg
        \<and> find (\<lambda>item. fst item = sf_itemId g) itemsg = Some (iidg, selectedg)
        \<and> sales dbg eid = Some old"
  show "map_option sale_profit (sales (snd (handleSubmitSale dbg newIdg itemsg (Some (eid, e)) g)) eid)
      = Some (case item_avgCost selectedg of Some c \<Rightarrow> (sf_price g - c) * sf_quantity g
              | None \<Rightarrow> sf_price g * sf_quantity g)"
    using edit handleSubmitSale_edit_profit [of g tg itemsg iidg selectedg dbg eid old] by simp
qed

theorem recorded_profit_witness:
  "map_option sale_profit
     (sales (snd (handleSell shop ''n1'' 200 ''u1'' (Some (''i1'', widget)) 3 (Some 12) ''Bob'' [])) ''n1'')
     = Some 21
   \<and> map_option sale_profit
       (sales (snd (handleSubmitSale shop ''n1'' [(''i1'', widget\<lparr>item_avgCost := None\<rparr>)] None (saleForm 3))) ''n1'')
     = Some 36
   \<and> map_option sale_profit
       (sales (snd (handleSubmitSale shop ''n1'' [(''i1'', widget)] (Some (''s1'', sale1)) (saleForm 4))) ''s1'')
     = Some 28"
  using recorded_profit [where q = 3 and p = 12 and db = shop and itemId = "''i1''" and stored = widget
      and newId = "''n1''" and now = 200 and uid = "''u1''" and item = widget and cn = "''Bob''" and cm = "[]"
      and f = "saleForm 3" and t = 200 and items = "[(''i1'', widget\<lparr>item_avgCost := None\<rparr>)]"
      and iid = "''i1''" and selected = "widget\<lparr>item_avgCost := None\<rparr>" and dbf = shop and newIdf = "''n1''"
      and g = "saleForm 4" and tg = 200 and itemsg = "[(''i1'', widget)]" and iidg = "''i1''"
      and selectedg = widget and dbg = shop and eid = "''s1''" and old = sale1 and newIdg = "''n1''"
      and e = sale1]
  by (simp add: samples)

subsection \<open>Editing a sale\<close>

text \<open>
  Claim C5. An edit of a stored sale record that changes its quantity from \<open>q1\<close> (the
  quantity of the record under edit) to \<open>q2\<close> (the quantity of the form) leaves the
  inventory item of the form with its stored quantity plus \<open>q1 - q2\<close>, and every other
  inventory document as it was. The form passes the validation, its item is in the
  page's list and in the store.
\<close>

theorem sale_edit_applies_difference:
  assumes "sf_itemId f \<noteq> []" and "0 < sf_quantity f" and "0 < sf_price f" and "sf_soldAt f = Some t"
    and "find (\<lambda>item. fst item = sf_itemId f) items = Some (iid, item)"
    and "sales db eid = Some old"
    and "inventory db iid = Some stored"
  shows "inventory (snd (handleSubmitSale db newId items (Some (eid, e)) f))
           = (inventory db)(iid \<mapsto>
                stored\<lparr>item_quantity := item_quantity stored + (sale_quantity e - sf_quantity f)\<rparr>)"
  using assms by (simp add: handleSubmitSale_def sdk)

theorem sale_edit_applies_difference_witness:
  "quantityOf (snd (handleSubmitSale shop ''n1'' [(''i1'', widget)] (Some (''s1'', sale1)) (saleForm 5))) ''i1''
     = Some (10 + (3 - 5))"
proof -
  have form: "sf_itemId (saleForm 5) \<noteq> []" "0 < sf_quantity (saleForm 5)" "0 < sf_price (saleForm 5)"
      "sf_soldAt (saleForm 5) = Some 200"
    by (simp_all add: saleForm_def)
  have found: "find (\<lambda>item. fst item = sf_itemId (saleForm 5)) [(''i1'', widget)] = Some (''i1'', widget)"
    by (simp add: saleForm_def)
  have stored: "sales shop ''s1'' = Some sale1" "inventory shop ''i1'' = Some widget"
    by (simp_all add: shop_def)
  show ?thesis
    using sale_edit_applies_difference [OF form found stored, of "''n1''" sale1]
    by (simp add: quantityOf_def widget_def sale1_def saleForm_def)
qed

subsection \<open>Sorting rows with missing values\<close>

text \<open>
  Claim C9. In the comparators of the sales, purchases and adjustments tables, when
  exactly one of two rows has null or undefined in the sort column, that row compares
  before the other in ascending order and after it in descending order, whatever the
  column and whatever the other row's value.
\<close>

theorem comparator_nullish_first:
  assumes "nullish (a orderBy)" and "\<not> nullish (b orderBy)"
  shows "sortedSales_comparator asc orderBy a b < 0 \<and> sortedSales_comparator asc orderBy b a > 0
       \<and> sortedSales_comparator desc orderBy a b > 0 \<and> sortedSales_comparator desc orderBy b a < 0
       \<and> sortedPurchases_comparator asc orderBy a b < 0 \<and> sortedPurchases_comparator asc orderBy b a > 0
       \<and> sortedPurchases_comparator desc orderBy a b > 0 \<and> sortedPurchases_comparator desc orderBy b a < 0
       \<and> sortedAdjustments_comparator asc orderBy a b < 0 \<and> sortedAdjustments_comparator asc orderBy b a > 0
       \<and> sortedAdjustments_comparator desc orderBy a b > 0 \<and> sortedAdjustments_comparator desc orderBy b a < 0"
  using assms
  by (simp add: sortedSales_comparator_def sortedPurchases_comparator_def sortedAdjustments_comparator_def
        comparator_def Let_def)

theorem comparator_nullish_first_witness:
  "sortedSales_comparator asc ''name'' rowA rowB < 0 \<and> sortedSales_comparator desc ''name'' rowA rowB > 0
   \<and> sortedPurchases_comparator asc ''name'' rowB rowA > 0
   \<and> sortedAdjustments_comparator desc ''name'' rowB rowA < 0"
proof -
  have missing: "nullish (rowA ''name'')" and present: "\<not> nullish (rowB ''name'')"
    by (simp_all add: nullish_def rowA_def rowB_def)
  show ?thesis
    using missing present comparator_nullish_first [where a = rowA and b = rowB and orderBy = "''name''"]
    by simp
qed

subsection \<open>Editing an adjustment\<close>

text \<open>
  Claim C10, as amended. An edit of a stored adjustment record overwrites the seven
  fields that the form saves: item id, name, quantity, reason, date, category and
  \<open>createdAt\<close>, the last with the time of the edit, so that the original creation time is
  lost. The field \<open>createdBy\<close>, which the inventory page stores with its adjustments, is
  kept as it was. The form passes the validation and its item is in the page's list.
\<close>

theorem adjustment_edit_overwrites_saved_fields:
  assumes "af_itemId f \<noteq> []" and "af_quantity f \<noteq> 0" and "af_reason f \<noteq> []" and "af_date f \<noteq> []"
    and "find (\<lambda>item. fst item = af_itemId f) items = Some (iid, item)"
    and "adjustments db eid = Some old"
  shows "adjustments (snd (handleSubmitAdjustment db newId now items adjustmentsList (Some (eid, e)) f)) eid
          = Some \<lparr> adj_itemId = af_itemId f, adj_name = item_name item, adj_quantity = af_quantity f,
                   adj_reason = af_reason f, adj_date = af_date f, adj_category = item_category item,
                   adj_createdAt = now, adj_createdBy = adj_createdBy old \<rparr>"
  using assms by (auto simp add: handleSubmitAdjustment_def sdk split: option.splits)

theorem adjustment_edit_overwrites_saved_fields_witness:
  "adjustments (snd (handleSubmitAdjustment shop ''n1'' 200 [(''i1'', widget)] [(''a1'', adjustment1)]
                       (Some (''a1'', adjustment1)) (adjustmentForm 13))) ''a1''
     = Some \<lparr> adj_itemId = ''i1'', adj_name = ''widget'', adj_quantity = 13, adj_reason = ''Recount'',
              adj_date = ''2025-02-02'', adj_category = ''tools'', adj_createdAt = 200,
              adj_createdBy = Some ''u1'' \<rparr>"
proof -
  have form: "af_itemId (adjustmentForm 13) \<noteq> []" "af_quantity (adjustmentForm 13) \<noteq> 0"
      "af_reason (adjustmentForm 13) \<noteq> []" "af_date (adjustmentForm 13) \<noteq> []"
    by (simp_all add: adjustmentForm_def)
  have found: "find (\<lambda>item. fst item = af_itemId (adjustmentForm 13)) [(''i1'', widget)] = Some (''i1'', widget)"
    by (simp add: adjustmentForm_def)
  have stored: "adjustments shop ''a1'' = Some adjustment1"
    by (simp add: shop_def)
  show ?thesis
    using adjustment_edit_overwrites_saved_fields [OF form found stored, of "''n1''" 200 "[(''a1'', adjustment1)]" adjustment1]
    by (simp add: adjustmentForm_def widget_def adjustment1_def)
qed

text \<open>The claim as first stated, that the edit overwrites every stored field, fails on
  an adjustment made from the inventory page: its \<open>createdBy\<close> is still the stored one
  after the edit.\<close>

theorem adjustment_edit_keeps_createdBy:
  "map_option adj_createdBy (adjustments shop ''a1'') = Some (Some ''u1'')
   \<and> map_option adj_createdBy
       (adjustments (snd (handleSubmitAdjustment shop ''n1'' 200 [(''i1'', widget)] [(''a1'', adjustment1)]
                            (Some (''a1'', adjustment1)) (adjustmentForm 13))) ''a1'')
     = Some (Some ''u1'')"
  by (simp add: handleSubmitAdjustment_def sdk samples)

subsection \<open>Purchases: price and average cost\<close>

text \<open>What the Purchase dialog of the inventory page computes: the quantity-weighted
  average, which is the purchase price when the item had no stock.\<close>

lemma handlePurchase_weighted_average:
  assumes "0 < q" and "0 < p" and "0 \<le> item_quantity stored" and "inventory db iid = Some stored"
  shows "map_option (\<lambda>r. inventory (snd r) iid)
           (handlePurchase db newId now uid (Some (iid, stored)) q (Some p))
         = Some (Some (stored\<lparr>item_quantity := item_quantity stored + q,
              item_avgCost := Some ((or_zero (item_avgCost stored) * item_quantity stored + q * p)
                                      / (item_quantity stored + q)),
              item_lastUpdated := Some now\<rparr>))"
  using assms by (simp add: handlePurchase_def sdk js_div_def Number_def)

lemma handlePurchase_into_empty_stock:
  assumes "0 < q" and "0 < p" and "item_quantity stored = 0" and "inventory db iid = Some stored"
  shows "map_option (\<lambda>r. map_option item_avgCost (inventory (snd r) iid))
           (handlePurchase db newId now uid (Some (iid, stored)) q (Some p))
         = Some (Some (Some p))"
  using assms by (simp add: handlePurchase_def sdk js_div_def Number_def)

text \<open>
  Claim C3 says that a purchase of \<open>q > 0\<close> units at unit price \<open>p \<ge> 0\<close> increments the
  quantity and updates both the price and the average cost of the item. On the item of
  the specification's scenario (10 units, price 4, average cost 5) and a purchase of 5
  units at 7: the Purchase dialog of the inventory page (\<open>handlePurchase\<close>) stores the
  new average cost 17/3 and leaves the price at 4; the add branch of the purchases page
  (\<open>handleSubmitPurchase\<close>) stores the price 7 and leaves the average cost at 5; and the
  dialog refuses a purchase at price 0, which the purchases page accepts.
\<close>

theorem purchase_updates_price_or_avgCost_not_both:
  "map_option (\<lambda>r. inventory (snd r) ''i1'')
     (handlePurchase shop ''n1'' 200 ''u1'' (Some (''i1'', widget)) 5 (Some 7))
     = Some (Some \<lparr> item_name = ''widget'', item_quantity = 15, item_price = 4, item_avgCost = Some (17 / 3),
                    item_category = ''tools'', item_lastUpdated = Some 200 \<rparr>)
   \<and> inventory (snd (handleSubmitPurchase shop ''n1'' [(''i1'', widget)] [] None (purchaseForm 5))) ''i1''
     = Some \<lparr> item_name = ''widget'', item_quantity = 15, item_price = 7, item_avgCost = Some 5,
              item_category = ''tools'', item_lastUpdated = None \<rparr>
   \<and> map_option snd (handlePurchase shop ''n1'' 200 ''u1'' (Some (''i1'', widget)) 5 (Some 0)) = Some shop
   \<and> quantityOf (snd (handleSubmitPurchase shop ''n1'' [(''i1'', widget)] [] None
                         ((purchaseForm 5)\<lparr>pf_price := 0\<rparr>))) ''i1'' = Some 15"
  by (simp add: handlePurchase_def handleSubmitPurchase_def sdk samples js_div_def Number_def or_zero_def
        quantityOf_def)

subsection \<open>The access gate\<close>

text \<open>What the gate does once nothing is in flight.\<close>

lemma gate_denies_staff_on_admin_route:
  assumes "user s = Some u" and "\<not> loading s" and "\<not> isRoleLoading s" and "error s = None"
    and "userRole s = Str ''staff''"
  shows "render (Some ''admin'') s = AccessDenied"
  using assms by (simp add: render_def)

lemma gate_redirects_without_user:
  assumes "user s = None" and "\<not> loading s" and "\<not> isRoleLoading s" and "error s = None"
  shows "render requiredRole s = NavigateLogin"
  using assms by (simp add: render_def)

lemma gate_spinner_while_flags_set:
  assumes "loading s \<or> isRoleLoading s"
  shows "render requiredRole s = Spinner"
  using assms by (simp add: render_def)

text \<open>
  Claim C8 says that while the identity or the role lookup is in flight the gate renders
  only a loading state. On a fresh page load the hook first reports no user and
  \<open>loading\<close>; the effect then takes its no-user branch and clears \<open>isRoleLoading\<close>. When the
  hook reports the signed-in admin \<open>u1\<close>, the effect starts the role lookup, and nothing
  sets \<open>isRoleLoading\<close> again: with the lookup pending, a gate without required role
  renders the protected content and a gate with required role \<open>admin\<close> renders the
  access-denied message, although the lookup then answers \<open>admin\<close> and the gate lets the
  user in.
\<close>

theorem gate_decides_while_lookup_pending:
  "render None (mount None True) = Spinner
   \<and> pending (authStateChanged (Some adminUser) (mount None True)) = Some ''u1''
   \<and> isRoleLoading (authStateChanged (Some adminUser) (mount None True)) = False
   \<and> render None (authStateChanged (Some adminUser) (mount None True)) = Outlet
   \<and> render (Some ''admin'') (authStateChanged (Some adminUser) (mount None True)) = AccessDenied
   \<and> render (Some ''admin'')
        (fetchRole_finish accounts (authStateChanged (Some adminUser) (mount None True))) = Outlet"
  by (simp add: authStateChanged_def mount_def fetchRole_start_def fetchRole_finish_def render_def
        adminUser_def accounts_def getUserRole_def getDoc_def field_def)

subsection \<open>Selling more than the stock\<close>

lemma clickSell_oversell:
  "item_quantity item < q \<Longrightarrow> clickSell db newId now uid (Some (iid, item)) q p cn cm = None"
  by (simp add: clickSell_def sellButtonDisabled_def or_zero_def)

lemma handleCreateSale_oversell:
  "dash_quantity item < q \<Longrightarrow> snd (handleCreateSale db newId now uid (Some (iid, item)) q p) = db"
  by (simp add: handleCreateSale_def)

lemma handleSubmitSale_oversell:
  assumes "sf_itemId f \<noteq> []" and "0 < sf_quantity f" and "0 < sf_price f" and "sf_soldAt f = Some t"
    and "find (\<lambda>item. fst item = sf_itemId f) items = Some (iid, item)"
    and "inventory db iid = Some stored"
    and "item_quantity stored < sf_quantity f"
  shows "inventory (snd (handleSubmitSale db newId items None f)) = inventory db
       \<and> map_option sale_quantity (sales (snd (handleSubmitSale db newId items None f)) newId)
             = Some (sf_quantity f)"
  using assms by (simp add: handleSubmitSale_def sdk)

text \<open>
  Claim C2, as amended. A sale of more than the stock is refused before any write on
  the inventory page, whose Sell button is disabled so that \<open>handleSell\<close> does not run, and
  on the staff dashboard, where \<open>handleCreateSale\<close> leaves the store as it was. On the sales
  page the add branch of \<open>handleSubmitSale\<close> leaves the inventory as it was but inserts
  the sale record. The stock is the quantity the page holds for the item (inventory
  page, dashboard) or the stored quantity (sales page).
\<close>

theorem oversell_outcomes:
  "(item_quantity item < q \<longrightarrow> clickSell db newId now uid (Some (itemId, item)) q p cn cm = None)
   \<and> (dash_quantity dashItem < dq \<longrightarrow>
        snd (handleCreateSale dashDb newIdd nowd uidd (Some (dashId, dashItem)) dq dp) = dashDb)
   \<and> (sf_itemId f \<noteq> [] \<and> 0 < sf_quantity f \<and> 0 < sf_price f \<and> sf_soldAt f = Some t
        \<and> find (\<lambda>item. fst item = sf_itemId f) items = Some (iid, selected)
        \<and> inventory dbf iid = Some stored \<and> item_quantity stored < sf_quantity f \<longrightarrow>
        inventory (snd (handleSubmitSale dbf newIdf items None f)) = inventory dbf
        \<and> map_option sale_quantity (sales (snd (handleSubmitSale dbf newIdf items None f)) newIdf)
             = Some (sf_quantity f))"
proof (intro conjI impI)
  assume "item_quantity item < q"
  then show "clickSell db newId now uid (Some (itemId, item)) q p cn cm = None"
    by (rule clickSell_oversell)
next
  assume "dash_quantity dashItem < dq"
  then show "snd (handleCreateSale dashDb newIdd nowd uidd (Some (dashId, dashItem)) dq dp) = dashDb"
    by (rule handleCreateSale_oversell)
next
  assume add: "sf_itemId f \<noteq> [] \<and> 0 < sf_quantity f \<and> 0 < sf_price f \<and> sf_soldAt f = Some t
        \<and> find (\<lambda>item. fst item = sf_itemId f) items = Some (iid, selected)
        \<and> inventory dbf iid = Some stored \<and> item_quantity stored < sf_quantity f"
  show "inventory (snd (handleSubmitSale dbf newIdf items None f)) = inventory dbf"
    using add handleSubmitSale_oversell [of f t items iid selected dbf stored] by simp
  show "map_option sale_quantity (sales (snd (handleSubmitSale dbf newIdf items None f)) newIdf)
             = Some (sf_quantity f)"
    using add handleSubmitSale_oversell [of f t items iid selected dbf stored] by simp
qed

theorem oversell_outcomes_witness:
  "clickSell shop ''n1'' 200 ''u1'' (Some (''i1'', widget)) 11 (Some 12) ''Bob'' [] = None
   \<and> snd (handleCreateSale dashShop ''n1'' 200 ''u1'' (Some (''i1'', dashWidget)) 11 (Some 12)) = dashShop
   \<and> inventory (snd (handleSubmitSale shop ''n1'' [(''i1'', widget)] None (saleForm 11))) = inventory shop
   \<and> map_option sale_quantity (sales (snd (handleSubmitSale shop ''n1'' [(''i1'', widget)] None (saleForm 11))) ''n1'')
       = Some 11"
proof -
  have over: "item_quantity widget < 11" "dash_quantity dashWidget < 11"
    by (simp_all add: widget_def dashWidget_def)
  have form: "sf_itemId (saleForm 11) \<noteq> [] \<and> 0 < sf_quantity (saleForm 11) \<and> 0 < sf_price (saleForm 11)
        \<and> sf_soldAt (saleForm 11) = Some 200
        \<and> find (\<lambda>item. fst item = sf_itemId (saleForm 11)) [(''i1'', widget)] = Some (''i1'', widget)
        \<and> inventory shop ''i1'' = Some widget \<and> item_quantity widget < sf_quantity (saleForm 11)"
    by (simp add: saleForm_def shop_def widget_def)
  show ?thesis
    using over form
      oversell_outcomes [where item = widget and q = 11 and db = shop and newId = "''n1''" and now = 200
        and uid = "''u1''" and itemId = "''i1''" and p = "Some 12" and cn = "''Bob''" and cm = "[]"
        and dashItem = dashWidget and dq = 11 and dashDb = dashShop and newIdd = "''n1''" and nowd = 200
        and uidd = "''u1''" and dashId = "''i1''" and dp = "Some 12"
        and f = "saleForm 11" and t = 200 and items = "[(''i1'', widget)]" and iid = "''i1''"
        and selected = widget and dbf = shop and stored = widget and newIdf = "''n1''"]
    by (simp add: saleForm_def)
qed

text \<open>The claim as first stated, that no sale record is inserted, fails on the sales
  page: a sale of 11 of the 10 widgets is recorded.\<close>

theorem oversell_inserts_sale_record:
  "sales shop ''n1'' = None
   \<and> map_option sale_quantity
       (sales (snd (handleSubmitSale shop ''n1'' [(''i1'', widget)] None (saleForm 11))) ''n1'') = Some 11
   \<and> quantityOf shop ''i1'' = Some 10"
  by (simp add: handleSubmitSale_def sdk samples quantityOf_def)

subsection \<open>Deleting a purchase\<close>




subsection \<open>Sign-in and the profile document\<close>

text \<open>For an identity without a users document, the sign-in adds one document under
  the identity's id, with role \<open>staff\<close>, and changes no other document.\<close>

lemma signin_creates_staff_document:
  assumes "email \<noteq> []" and "6 \<le> length password" and "signIn email password = Inr u"
    and "users (user_uid u) = None"
  shows "Login_handleSubmit users signIn now email password
           = (snackbar ''Login successful!'' Success,
              users(user_uid u \<mapsto>
                [''uid'' \<mapsto> Str (user_uid u),
                 ''email'' \<mapsto> (case user_email u of None \<Rightarrow> Null | Some e \<Rightarrow> Str e),
                 ''role'' \<mapsto> Str ''staff'',
                 ''createdAt'' \<mapsto> Ts now]))"
  using assms
  by (auto simp add: Login_handleSubmit_def sdk field_def allow_read_user_def allow_create_user_def)

text \<open>For an identity whose document has no role, the handler asks for the update of
  the role; the rules allow that update to admins only, the caller's own document
  shows no role, and the call is refused.\<close>

lemma signin_patch_refused:
  assumes "email \<noteq> []" and "6 \<le> length password" and "signIn email password = Inr u"
    and "users (user_uid u) = Some d" and "\<not> truthy (field d ''role'')"
  shows "Login_handleSubmit users signIn now email password
           = (snackbar ''Missing or insufficient permissions.'' Error, users)"
proof -
  have "d ''role'' \<noteq> Some (Str ''admin'')"
    using assms(5) by (auto simp add: field_def)
  then have "\<not> allow_update_user users (Some (user_uid u))"
    using assms(4) by (simp add: allow_update_user_def hasRole_def)
  then show ?thesis
    using assms
    by (auto simp add: Login_handleSubmit_def sdk allow_read_user_def)
qed

text \<open>
  Claim C7 says that a sign-in by an identity without a users document creates exactly
  one document, with role \<open>staff\<close>, and that a sign-in by an identity whose document lacks
  the role sets the role to \<open>staff\<close> and changes no other field. The first holds: \<open>u3\<close>
  signs in and gets its document. The second does not: \<open>u2\<close>, whose document has no role,
  signs in, the handler asks the store to set the role as the claim says, the rules
  refuse the update, and the sign-in ends in its \<open>catch\<close> with the document as it was.
\<close>

theorem signin_role_patch_is_refused:
  "accounts ''u2'' = Some [''uid'' \<mapsto> Str ''u2'', ''email'' \<mapsto> Str ''old@shop'']
   \<and> Login_handleSubmit accounts provider 300 ''old@shop'' ''secret2''
       = (snackbar ''Missing or insufficient permissions.'' Error, accounts)
   \<and> accounts ''u3'' = None
   \<and> Login_handleSubmit accounts provider 300 ''new@shop'' ''secret3''
       = (snackbar ''Login successful!'' Success,
          accounts(''u3'' \<mapsto> [''uid'' \<mapsto> Str ''u3'', ''email'' \<mapsto> Str ''new@shop'', ''role'' \<mapsto> Str ''staff'',
                               ''createdAt'' \<mapsto> Ts 300]))"
proof -
  have old: "provider ''old@shop'' ''secret2'' = Inr \<lparr> user_uid = ''u2'', user_email = Some ''old@shop'' \<rparr>"
    and new: "provider ''new@shop'' ''secret3'' = Inr \<lparr> user_uid = ''u3'', user_email = Some ''new@shop'' \<rparr>"
    by (simp_all add: provider_def)
  have roleless: "accounts ''u2'' = Some [''uid'' \<mapsto> Str ''u2'', ''email'' \<mapsto> Str ''old@shop'']"
    and absent: "accounts ''u3'' = None"
    by (simp_all add: accounts_def)
  have norole: "\<not> truthy (field [''uid'' \<mapsto> Str ''u2'', ''email'' \<mapsto> Str ''old@shop''] ''role'')"
    by (simp add: field_def)
  have refused: "Login_handleSubmit accounts provider 300 ''old@shop'' ''secret2''
       = (snackbar ''Missing or insufficient permissions.'' Error, accounts)"
    using signin_patch_refused [where signIn = provider and email = "''old@shop''" and password = "''secret2''"
        and u = "\<lparr> user_uid = ''u2'', user_email = Some ''old@shop'' \<rparr>" and users = accounts and now = 300
        and d = "[''uid'' \<mapsto> Str ''u2'', ''email'' \<mapsto> Str ''old@shop'']"]
      old roleless norole by simp
  have created: "Login_handleSubmit accounts provider 300 ''new@shop'' ''secret3''
       = (snackbar ''Login successful!'' Success,
          accounts(''u3'' \<mapsto> [''uid'' \<mapsto> Str ''u3'', ''email'' \<mapsto> Str ''new@shop'', ''role'' \<mapsto> Str ''staff'',
                               ''createdAt'' \<mapsto> Ts 300]))"
    using signin_creates_staff_document [where signIn = provider and email = "''new@shop''"
        and password = "''secret3''" and u = "\<lparr> user_uid = ''u3'', user_email = Some ''new@shop'' \<rparr>"
        and users = accounts and now = 300]
      new absent by simp
  show ?thesis
    using roleless absent refused created by simp
qed

subsection \<open>The stored quantity and the negative check\<close>

text \<open>
  Claim C1 says that no inventory mutation stores a negative quantity, and that a
  change that would do so leaves the stored quantity as it was with neither the history
  write nor the inventory write applied. The inventory page's adjustment
  (\<open>handleAdjust\<close>) does so: it refuses an adjustment of -12 on the 10 widgets and writes
  nothing. On the same item:
  \<^item> the add branch of the adjustments page finds the result negative, reports it,
    and writes the record and the quantity -2 all the same;
  \<^item> the edit branch of the sales page has no check: editing the sale of 3 into a sale
    of 15 stores the quantity -2;
  \<^item> the edit branch of the adjustments page reports the edit of the adjustment of 12
    into one of 1 as cancelled and leaves the inventory as it was, after it has
    rewritten the adjustment record.
\<close>

theorem negative_stock_written_despite_check:
  "snd (handleAdjust shop ''n1'' 200 ''u1'' (Some (''i1'', widget)) (Some (- 12)) ''Recount'' ''2025-02-02'') = shop
   \<and> fst (handleSubmitAdjustment shop ''n1'' 200 [(''i1'', widget)] [(''a1'', adjustment1)] None
            (adjustmentForm (- 12)))
       = snackbar ''Adjustment record added, but would result in negative inventory quantity!'' Error
   \<and> map_option adj_quantity
        (adjustments (snd (handleSubmitAdjustment shop ''n1'' 200 [(''i1'', widget)] [(''a1'', adjustment1)] None
                             (adjustmentForm (- 12)))) ''n1'') = Some (- 12)
   \<and> quantityOf (snd (handleSubmitAdjustment shop ''n1'' 200 [(''i1'', widget)] [(''a1'', adjustment1)] None
                         (adjustmentForm (- 12)))) ''i1'' = Some (- 2)
   \<and> quantityOf (snd (handleSubmitSale shop ''n1'' [(''i1'', widget)] (Some (''s1'', sale1)) (saleForm 15))) ''i1''
       = Some (- 2)
   \<and> fst (handleSubmitAdjustment shop ''n1'' 200 [(''i1'', widget)] [(''a1'', adjustment1)]
            (Some (''a1'', adjustment1)) (adjustmentForm 1))
       = snackbar ''Adjustment edit would result in negative inventory quantity. Operation cancelled.'' Error
   \<and> map_option adj_quantity
        (adjustments (snd (handleSubmitAdjustment shop ''n1'' 200 [(''i1'', widget)] [(''a1'', adjustment1)]
                             (Some (''a1'', adjustment1)) (adjustmentForm 1))) ''a1'') = Some 1
   \<and> inventory (snd (handleSubmitAdjustment shop ''n1'' 200 [(''i1'', widget)] [(''a1'', adjustment1)]
                        (Some (''a1'', adjustment1)) (adjustmentForm 1))) = inventory shop"
  by (simp add: handleAdjust_def handleSubmitAdjustment_def handleSubmitSale_def sdk samples quantityOf_def
        Number_def)

end
